theory Spec2Isabelle
  imports Complex_Main
begin

section \<open>Numbers\<close>

text \<open>
  The program computes in C++ \<^verbatim>\<open>float\<close>. The model keeps the shape of an IEEE value:
  a finite number, one of the two infinities, or not-a-number, so that a division by zero
  and everything computed from it is visible in the tables. Finite values are exact
  rationals: rounding to 24 significant bits, overflow of a finite result and the sign of
  zero are not modelled (a zero divisor is taken as \<^verbatim>\<open>+0\<close>, which is what
  \<^verbatim>\<open>y - y\<close> and \<^verbatim>\<open>0 / positive\<close> give under round-to-nearest).
\<close>

datatype float = Finite rat | PosInf | NegInf | NaN

fun fneg :: "float \<Rightarrow> float" where
  "fneg (Finite a) = Finite (- a)"
| "fneg PosInf = NegInf"
| "fneg NegInf = PosInf"
| "fneg NaN = NaN"

fun fadd :: "float \<Rightarrow> float \<Rightarrow> float" where
  "fadd (Finite a) (Finite b) = Finite (a + b)"
| "fadd NaN _ = NaN"
| "fadd _ NaN = NaN"
| "fadd PosInf NegInf = NaN"
| "fadd NegInf PosInf = NaN"
| "fadd PosInf _ = PosInf"
| "fadd NegInf _ = NegInf"
| "fadd _ PosInf = PosInf"
| "fadd _ NegInf = NegInf"

definition fsub :: "float \<Rightarrow> float \<Rightarrow> float" where
  "fsub a b = fadd a (fneg b)"

text \<open>The sign of a value that is not NaN: \<open>-1\<close>, \<open>0\<close> or \<open>1\<close>.\<close>

fun fsign :: "float \<Rightarrow> rat" where
  "fsign (Finite a) = sgn a"
| "fsign PosInf = 1"
| "fsign NegInf = - 1"
| "fsign NaN = 0"

definition inf_of_sign :: "rat \<Rightarrow> float" where
  "inf_of_sign s = (if s = 0 then NaN else if 0 < s then PosInf else NegInf)"

fun fmul :: "float \<Rightarrow> float \<Rightarrow> float" where
  "fmul (Finite a) (Finite b) = Finite (a * b)"
| "fmul NaN _ = NaN"
| "fmul _ NaN = NaN"
| "fmul a b = inf_of_sign (fsign a * fsign b)"

text \<open>
  Division: a finite nonzero value over zero is an infinity of the dividend's sign, zero
  over zero and infinity over infinity are NaN, a finite value over an infinity is zero,
  an infinity over a finite value keeps or flips its sign (the divisor zero counts as
  positive).
\<close>

fun fdiv :: "float \<Rightarrow> float \<Rightarrow> float" where
  "fdiv (Finite a) (Finite b) =
     (if b \<noteq> 0 then Finite (a / b) else inf_of_sign (sgn a))"
| "fdiv NaN _ = NaN"
| "fdiv _ NaN = NaN"
| "fdiv (Finite a) _ = Finite 0"
| "fdiv a (Finite b) = inf_of_sign (fsign a * (if b < 0 then - 1 else 1))"
| "fdiv _ _ = NaN"

text \<open>Comparison: every comparison with NaN is false.\<close>

fun fless :: "float \<Rightarrow> float \<Rightarrow> bool" where
  "fless (Finite a) (Finite b) = (a < b)"
| "fless NaN _ = False"
| "fless _ NaN = False"
| "fless _ NegInf = False"
| "fless PosInf _ = False"
| "fless _ _ = True"

fun fle :: "float \<Rightarrow> float \<Rightarrow> bool" where
  "fle (Finite a) (Finite b) = (a \<le> b)"
| "fle NaN _ = False"
| "fle _ NaN = False"
| "fle NegInf _ = True"
| "fle _ PosInf = True"
| "fle _ _ = False"

definition fgt :: "float \<Rightarrow> float \<Rightarrow> bool" where
  "fgt a b = fless b a"

definition fge :: "float \<Rightarrow> float \<Rightarrow> bool" where
  "fge a b = fle b a"

section \<open>Data\<close>

text \<open>\<^verbatim>\<open>LineFunc\<close>: a linear function, its slope and its y-intercept.\<close>

record LineFunc =
  slope :: float
  yint :: float

text \<open>\<^verbatim>\<open>Point\<close>: a point of the plane (fields \<^verbatim>\<open>x\<close> and \<^verbatim>\<open>y\<close> of the source).\<close>

record Point =
  pt_x :: float
  pt_y :: float

text \<open>
  \<^verbatim>\<open>std::map<std::pair<float, float>, LineFunc>\<close>: the entries in the order of their
  keys, which is the order \<^verbatim>\<open>std::find_if\<close> visits them in. \<open>key_less\<close> is
  \<^verbatim>\<open>operator<\<close> of \<^verbatim>\<open>std::pair\<close>; \<open>map_insert\<close> is \<^verbatim>\<open>std::map::insert\<close>, which
  leaves the map as it is when an entry with an equivalent key is there already.
\<close>

type_synonym interval = "float \<times> float"

type_synonym segment = "interval \<times> LineFunc"

type_synonym table = "segment list"

definition key_less :: "interval \<Rightarrow> interval \<Rightarrow> bool" where
  "key_less a b =
     (fless (fst a) (fst b) \<or> (\<not> fless (fst b) (fst a) \<and> fless (snd a) (snd b)))"

fun map_insert :: "segment \<Rightarrow> table \<Rightarrow> table" where
  "map_insert kv [] = [kv]"
| "map_insert kv (e # es) =
     (if key_less (fst kv) (fst e) then kv # e # es
      else if key_less (fst e) (fst kv) then e # map_insert kv es
      else e # es)"

record FunctionToPiecewise =
  originalFunciton :: "float \<Rightarrow> float"
  f_of_x_fns :: table
  f_of_y_fns :: table

text \<open>
  Modelled from the spec: \<^verbatim>\<open>MBED_ERROR\<close> is a macro of Mbed OS, which is not part of the
  repository. The spec has a query that matches no segment fail (\<^verbatim>\<open>OutOfDomain\<close> for
  \<^verbatim>\<open>xToy\<close>, \<^verbatim>\<open>OutOfRange\<close> for \<^verbatim>\<open>yTox\<close>); the model ends the query there with an
  error value, one for each call of the macro. Both calls pass
  \<^verbatim>\<open>MBED_ERROR_CODE_INVALID_ARGUMENT\<close> and differ in their message.
\<close>

datatype error =
    XOutOfInterval  \<comment> \<open>"_x value is out of the piecewise function's interval"\<close>
  | YOutOfRange     \<comment> \<open>"_y value is out of the piecewise function's range"\<close>

section \<open>Operations\<close>

definition evalLinearFunction :: "float \<Rightarrow> LineFunc \<Rightarrow> float" where
  "evalLinearFunction xv line = fadd (fmul (slope line) xv) (yint line)"

definition getLineFuncSlope :: "Point \<Rightarrow> Point \<Rightarrow> float" where
  "getLineFuncSlope pt1 pt2 = fdiv (fsub (pt_y pt2) (pt_y pt1)) (fsub (pt_x pt2) (pt_x pt1))"

definition getLineFuncYInt :: "Point \<Rightarrow> Point \<Rightarrow> float" where
  "getLineFuncYInt pt1 pt2 = fsub (pt_y pt1) (fmul (getLineFuncSlope pt1 pt2) (pt_x pt1))"

text \<open>
  The body of the first loop of the constructor, at the loop variable \<open>xv\<close>: the entry it
  inserts into \<^verbatim>\<open>f_of_x_fns\<close>. The key assigned from the two y values is overwritten by
  the x values before it is used.
\<close>

definition fwd_entry :: "(float \<Rightarrow> float) \<Rightarrow> float \<Rightarrow> float \<Rightarrow> segment" where
  "fwd_entry function xIncrement xv =
     (let tempPt1 = \<lparr>pt_x = xv, pt_y = function xv\<rparr>;
          tempPt2 = \<lparr>pt_x = fadd xv xIncrement, pt_y = function (fadd xv xIncrement)\<rparr>;
          tempLineFunc = \<lparr>slope = getLineFuncSlope tempPt1 tempPt2,
                          yint = getLineFuncYInt tempPt1 tempPt2\<rparr>
      in ((pt_x tempPt1, pt_x tempPt2), tempLineFunc))"

text \<open>
  The body of the second loop: the entry it inserts into \<^verbatim>\<open>f_of_y_fns\<close>.
  \<^verbatim>\<open>std::pair<float, float> tempSubInterval;\<close> is value-initialised by the default
  constructor of \<^verbatim>\<open>std::pair\<close>, so the key is \<open>(0, 0)\<close> when neither y value is greater
  than the other (equal values, or a NaN).
\<close>

definition inv_entry :: "(float \<Rightarrow> float) \<Rightarrow> float \<Rightarrow> float \<Rightarrow> segment" where
  "inv_entry function xIncrement xv =
     (let tempPt1 = \<lparr>pt_x = xv, pt_y = function xv\<rparr>;
          tempPt2 = \<lparr>pt_x = fadd xv xIncrement, pt_y = function (fadd xv xIncrement)\<rparr>;
          tempLineFunc = \<lparr>slope = fdiv (Finite 1) (getLineFuncSlope tempPt1 tempPt2),
                          yint = fdiv (fmul (Finite (- 1)) (getLineFuncYInt tempPt1 tempPt2))
                                      (getLineFuncSlope tempPt1 tempPt2)\<rparr>;
          tempSubInterval =
            (if fgt (pt_y tempPt1) (pt_y tempPt2) then (pt_y tempPt2, pt_y tempPt1)
             else if fgt (pt_y tempPt2) (pt_y tempPt1) then (pt_y tempPt1, pt_y tempPt2)
             else (Finite 0, Finite 0))
      in (tempSubInterval, tempLineFunc))"

text \<open>
  \<^verbatim>\<open>for (float x = _interval.first; x < _interval.second; x += xIncrement)\<close>, inserting
  the entry \<open>body x\<close> at each turn. Both loops of the constructor have this header. The
  loop need not end (a step that is not positive), so the result is an option and
  \<open>None\<close> is the loop that runs forever.
\<close>

partial_function (option) slice_loop ::
  "(float \<Rightarrow> segment) \<Rightarrow> float \<Rightarrow> float \<Rightarrow> float \<Rightarrow> table \<Rightarrow> table option" where
  "slice_loop body hi xIncrement xv tbl =
     (if fless xv hi
      then slice_loop body hi xIncrement (fadd xv xIncrement) (map_insert (body xv) tbl)
      else Some tbl)"

declare slice_loop.simps [code]

text \<open>
  The constructor. \<^verbatim>\<open>_nSegments\<close> is an \<^verbatim>\<open>int\<close>, converted to \<^verbatim>\<open>float\<close> for the
  division. Nothing is checked: no branch of the constructor fails.
\<close>

definition FunctionToPiecewise_ctor ::
  "(float \<Rightarrow> float) \<Rightarrow> int \<Rightarrow> interval \<Rightarrow> FunctionToPiecewise option" where
  "FunctionToPiecewise_ctor function nSegments ival =
     (let xIncrement = fdiv (fsub (snd ival) (fst ival)) (Finite (of_int nSegments))
      in case slice_loop (fwd_entry function xIncrement) (snd ival) xIncrement (fst ival) [] of
           None \<Rightarrow> None
         | Some fx \<Rightarrow>
             (case slice_loop (inv_entry function xIncrement) (snd ival) xIncrement
                     (fst ival) [] of
                None \<Rightarrow> None
              | Some fy \<Rightarrow>
                  Some \<lparr>originalFunciton = function, f_of_x_fns = fx, f_of_y_fns = fy\<rparr>))"

text \<open>\<^verbatim>\<open>_x >= fn.first.first && _x < fn.first.second\<close>, the predicate of both queries.\<close>

definition in_range :: "float \<Rightarrow> segment \<Rightarrow> bool" where
  "in_range v fn = (fge v (fst (fst fn)) \<and> fless v (snd (fst fn)))"

definition xToy :: "FunctionToPiecewise \<Rightarrow> float \<Rightarrow> error + float" where
  "xToy p xv =
     (case find (in_range xv) (f_of_x_fns p) of
        None \<Rightarrow> Inl XOutOfInterval
      | Some fn \<Rightarrow> Inr (evalLinearFunction xv (snd fn)))"

definition yTox :: "FunctionToPiecewise \<Rightarrow> float \<Rightarrow> error + float" where
  "yTox p yv =
     (case find (in_range yv) (f_of_y_fns p) of
        None \<Rightarrow> Inl YOutOfRange
      | Some fn \<Rightarrow> Inr (evalLinearFunction yv (snd fn)))"

text \<open>\<^verbatim>\<open>Func1\<close> of the test file: \<^verbatim>\<open>2 * _x\<close>.\<close>

definition Func1 :: "float \<Rightarrow> float" where
  "Func1 xv = fmul (Finite 2) xv"

section \<open>Vocabulary of the properties\<close>

text \<open>
  For a segment count \<open>n \<ge> 1\<close> and finite bounds \<open>lo < hi\<close> the step is \<open>(hi - lo) / n\<close>
  and the loop variable takes the values \<open>lo + i * step\<close>: without rounding, adding the
  step \<open>i\<close> times gives this sample.
\<close>

definition sample :: "rat \<Rightarrow> rat \<Rightarrow> nat \<Rightarrow> rat" where
  "sample lo step i = lo + of_nat i * step"








section \<open>Source functions of the examples\<close>





section \<open>Arithmetic on finite values\<close>

lemma fsub_Finite [simp]: "fsub (Finite a) (Finite b) = Finite (a - b)"
  by (simp add: fsub_def)



section \<open>Insertion in key order\<close>



section \<open>The loop on finite values\<close>




lemma sample_0 [simp]: "sample lo step 0 = lo"
  by (simp add: sample_def)









section \<open>Looking a value up in the forward table\<close>

lemma in_range_Finite [simp]:
  "in_range (Finite v) ((Finite a, Finite b), L) = (a \<le> v \<and> v < b)"
  by (simp add: in_range_def fge_def)














section \<open>The inverse table\<close>
















section \<open>Loops that stop at once, run once, or never stop\<close>

lemma slice_loop_diverges_aux:
  assumes r: "slice_loop body h d xv tbl = Some t"
  shows "\<not> (\<exists>hi inc x. h = Finite hi \<and> d = Finite inc \<and> xv = Finite x \<and> inc \<le> 0 \<and> x < hi)"
proof (rule slice_loop.raw_induct
    [where P = "\<lambda>body h d xv tbl t.
       \<not> (\<exists>hi inc x. h = Finite hi \<and> d = Finite inc \<and> xv = Finite x \<and> inc \<le> 0 \<and> x < hi)",
     OF _ r])
  fix loop :: "(float \<Rightarrow> segment) \<Rightarrow> float \<Rightarrow> float \<Rightarrow> float \<Rightarrow> table \<Rightarrow> table option"
  fix body h d xv tbl t
  assume IH: "\<And>b h d xv tbl y. loop b h d xv tbl = Some y \<Longrightarrow>
       \<not> (\<exists>hi inc x. h = Finite hi \<and> d = Finite inc \<and> xv = Finite x \<and> inc \<le> 0 \<and> x < hi)"
    and eq: "(if fless xv h then loop body h d (fadd xv d) (map_insert (body xv) tbl)
              else Some tbl) = Some t"
  show "\<not> (\<exists>hi inc x. h = Finite hi \<and> d = Finite inc \<and> xv = Finite x \<and> inc \<le> 0 \<and> x < hi)"
  proof
    assume "\<exists>hi inc x. h = Finite hi \<and> d = Finite inc \<and> xv = Finite x \<and> inc \<le> 0 \<and> x < hi"
    then obtain hi inc x where x: "h = Finite hi" "d = Finite inc" "xv = Finite x" "inc \<le> 0" "x < hi"
      by blast
    have "loop body h d (Finite (x + inc)) (map_insert (body xv) tbl) = Some t"
      using eq x by simp
    from IH [OF this] have "\<not> (x + inc < hi)" using x by simp
    with x show False by simp
  qed
qed

lemma slice_loop_diverges:
  "inc \<le> 0 \<Longrightarrow> x < hi \<Longrightarrow> slice_loop body (Finite hi) (Finite inc) (Finite x) tbl = None"
  using slice_loop_diverges_aux [of body "Finite hi" "Finite inc" "Finite x" tbl]
  by (cases "slice_loop body (Finite hi) (Finite inc) (Finite x) tbl") auto

lemma xToy_empty:
  "xToy \<lparr>originalFunciton = fo, f_of_x_fns = [], f_of_y_fns = ty\<rparr> v = Inl XOutOfInterval"
  by (simp add: xToy_def)

lemma yTox_empty:
  "yTox \<lparr>originalFunciton = fo, f_of_x_fns = tx, f_of_y_fns = []\<rparr> v = Inl YOutOfRange"
  by (simp add: yTox_def)

lemma slice_loop_stop:
  "\<not> fless xv hi \<Longrightarrow> slice_loop body hi inc xv tbl = Some tbl"
  by (subst slice_loop.simps) simp

lemma slice_loop_step:
  "fless xv hi \<Longrightarrow> slice_loop body hi inc xv tbl =
     slice_loop body hi inc (fadd xv inc) (map_insert (body xv) tbl)"
  by (subst slice_loop.simps) simp

lemma slice_loop_unbounded_step:
  "lo < hi \<Longrightarrow> slice_loop body (Finite hi) PosInf (Finite lo) [] = Some [body (Finite lo)]"
  by (simp add: slice_loop_step slice_loop_stop)

section \<open>Sample values that rise or fall\<close>














section \<open>Flat slices\<close>





section \<open>The claims\<close>

text \<open>
  C1. The test file's scenario: for \<^verbatim>\<open>Func1\<close> (\<open>f(x) = 2x\<close>), one segment and the
  interval \<open>(0, 5)\<close>, the constructor returns an object on which \<^verbatim>\<open>xToy(1)\<close> is 2,
  \<^verbatim>\<open>xToy(0)\<close> is 0 and \<^verbatim>\<open>xToy(5)\<close> stops with the out-of-interval error.
\<close>

theorem concrete_scenario:
  "\<exists>p. FunctionToPiecewise_ctor Func1 1 (Finite 0, Finite 5) = Some p
     \<and> xToy p (Finite 1) = Inr (Finite 2)
     \<and> xToy p (Finite 0) = Inr (Finite 0)
     \<and> xToy p (Finite 5) = Inl XOutOfInterval"
  by (simp add: FunctionToPiecewise_ctor_def slice_loop.simps fwd_entry_def inv_entry_def
      Func1_def fsub_def getLineFuncSlope_def getLineFuncYInt_def xToy_def in_range_def
      fge_def fgt_def evalLinearFunction_def Let_def)














text \<open>
  C7, as amended. The constructor checks neither the segment count nor the interval, and no
  branch of it fails. With \<open>lo \<ge> hi\<close> (any segment count) it returns an object whose two
  tables are empty, on which every \<^verbatim>\<open>xToy\<close> stops with the out-of-interval error and every
  \<^verbatim>\<open>yTox\<close> with the out-of-range error. With \<open>lo < hi\<close> and the segment count 0 the step
  is \<open>+\<infinity>\<close> and it returns an object with one forward entry, of range \<open>[lo, +\<infinity>)\<close>.
  With \<open>lo < hi\<close> and a negative segment count the first loop never ends.
\<close>

theorem construction_checks_nothing:
  "(hi \<le> lo \<longrightarrow>
      FunctionToPiecewise_ctor f n (Finite lo, Finite hi)
        = Some \<lparr>originalFunciton = f, f_of_x_fns = [], f_of_y_fns = []\<rparr>
      \<and> xToy \<lparr>originalFunciton = f, f_of_x_fns = [], f_of_y_fns = []\<rparr> xv = Inl XOutOfInterval
      \<and> yTox \<lparr>originalFunciton = f, f_of_x_fns = [], f_of_y_fns = []\<rparr> yv = Inl YOutOfRange)
   \<and> (lo < hi \<longrightarrow>
      FunctionToPiecewise_ctor f 0 (Finite lo, Finite hi)
        = Some \<lparr>originalFunciton = f, f_of_x_fns = [fwd_entry f PosInf (Finite lo)],
                f_of_y_fns = [inv_entry f PosInf (Finite lo)]\<rparr>
      \<and> fst (fwd_entry f PosInf (Finite lo)) = (Finite lo, PosInf))
   \<and> (lo < hi \<and> n < 0 \<longrightarrow>
      FunctionToPiecewise_ctor f n (Finite lo, Finite hi) = None)"
proof (intro conjI impI)
  assume "hi \<le> lo"
  then show "FunctionToPiecewise_ctor f n (Finite lo, Finite hi)
        = Some \<lparr>originalFunciton = f, f_of_x_fns = [], f_of_y_fns = []\<rparr>"
    by (simp add: FunctionToPiecewise_ctor_def Let_def slice_loop_stop)
next
  show "xToy \<lparr>originalFunciton = f, f_of_x_fns = [], f_of_y_fns = []\<rparr> xv = Inl XOutOfInterval"
    by (rule xToy_empty)
next
  show "yTox \<lparr>originalFunciton = f, f_of_x_fns = [], f_of_y_fns = []\<rparr> yv = Inl YOutOfRange"
    by (rule yTox_empty)
next
  assume lt: "lo < hi"
  have "fdiv (fsub (snd (Finite lo, Finite hi)) (fst (Finite lo, Finite hi)))
          (Finite (of_int 0)) = PosInf"
    using lt by (simp add: inf_of_sign_def)
  then show "FunctionToPiecewise_ctor f 0 (Finite lo, Finite hi)
        = Some \<lparr>originalFunciton = f, f_of_x_fns = [fwd_entry f PosInf (Finite lo)],
                f_of_y_fns = [inv_entry f PosInf (Finite lo)]\<rparr>"
    unfolding FunctionToPiecewise_ctor_def Let_def
    by (simp add: slice_loop_unbounded_step [OF lt])
next
  show "fst (fwd_entry f PosInf (Finite lo)) = (Finite lo, PosInf)"
    by (simp add: fwd_entry_def Let_def)
next
  assume a: "lo < hi \<and> n < 0"
  then have "(hi - lo) / of_int n \<le> 0"
    by (simp add: divide_le_0_iff)
  moreover have "fdiv (fsub (snd (Finite lo, Finite hi)) (fst (Finite lo, Finite hi)))
          (Finite (of_int n)) = Finite ((hi - lo) / of_int n)"
    using a by simp
  ultimately show "FunctionToPiecewise_ctor f n (Finite lo, Finite hi) = None"
    unfolding FunctionToPiecewise_ctor_def Let_def
    using a by (simp add: slice_loop_diverges)
qed

theorem construction_checks_nothing_witness:
  "(0::rat) \<le> 5 \<and> (0::rat) < 5 \<and> (- 3 :: int) < 0
   \<and> FunctionToPiecewise_ctor Func1 (- 3) (Finite 5, Finite 0)
       = Some \<lparr>originalFunciton = Func1, f_of_x_fns = [], f_of_y_fns = []\<rparr>
   \<and> FunctionToPiecewise_ctor Func1 0 (Finite 0, Finite 5)
       = Some \<lparr>originalFunciton = Func1, f_of_x_fns = [fwd_entry Func1 PosInf (Finite 0)],
               f_of_y_fns = [inv_entry Func1 PosInf (Finite 0)]\<rparr>
   \<and> FunctionToPiecewise_ctor Func1 (- 3) (Finite 0, Finite 5) = None"
  using construction_checks_nothing [of 0 5 Func1 "- 3"]
    construction_checks_nothing [of 5 0 Func1 "- 3"]
  by simp

text \<open>
  The claim as stated fails: the interval \<open>(5, 0)\<close> and the segment count 0 are both
  accepted, and an object is returned.
\<close>

theorem construction_checks_nothing_counterexample:
  "FunctionToPiecewise_ctor Func1 1 (Finite 5, Finite 0)
       = Some \<lparr>originalFunciton = Func1, f_of_x_fns = [], f_of_y_fns = []\<rparr>
   \<and> FunctionToPiecewise_ctor Func1 0 (Finite 0, Finite 5)
       = Some \<lparr>originalFunciton = Func1, f_of_x_fns = [((Finite 0, PosInf), \<lparr>slope = NaN, yint = NaN\<rparr>)],
               f_of_y_fns = [((Finite 0, PosInf), \<lparr>slope = NaN, yint = NaN\<rparr>)]\<rparr>"
  by (simp add: Func1_def FunctionToPiecewise_ctor_def slice_loop.simps fwd_entry_def inv_entry_def
      fsub_def getLineFuncSlope_def getLineFuncYInt_def xToy_def yTox_def in_range_def
      fge_def fgt_def evalLinearFunction_def Let_def key_less_def inf_of_sign_def)









end
